theory Spec2Isabelle
  imports Main "HOL-Library.Word"
begin

section \<open>Data model (shared/schema.ts)\<close>

text \<open>
  \<^verbatim>\<open>InsertMedia\<close> is the row of \<^verbatim>\<open>media_files\<close> without its \<^verbatim>\<open>id\<close>; \<^verbatim>\<open>MediaFile\<close> is the
  whole row. The \<^verbatim>\<open>jsonb\<close> column holds, in every place of the repository that builds one,
  an object with string-valued properties: an association list in property order. The
  field \<^verbatim>\<open>id\<close> is called \<open>id_num\<close>, since \<open>id\<close> is the identity function of HOL.
  Numbers that the program uses as integers are \<open>int\<close>: a JavaScript number holds every
  integer below \<open>2 ^ 53\<close> exactly, and the counters here start at 1 and grow by 1.
\<close>

type_synonym Buffer = "8 word list"

record InsertMedia =
  fileName :: string
  fileType :: string
  fileSize :: int
  uploadDate :: string
  metadata :: "(string \<times> string) list"

record MediaFile = InsertMedia +
  id_num :: int

text \<open>The object spread \<^verbatim>\<open>{ ...insertMedia, id }\<close>.\<close>

definition spread_id :: "InsertMedia \<Rightarrow> int \<Rightarrow> MediaFile" where
  "spread_id insertMedia i = InsertMedia.extend insertMedia (MediaFile.fields i)"

section \<open>The JavaScript Map\<close>

text \<open>
  A \<^verbatim>\<open>Map\<close> iterates in insertion order: \<^verbatim>\<open>set\<close> on a present key replaces the value
  where it stands, on a new key it appends; \<^verbatim>\<open>delete\<close> removes the entry.
\<close>

type_synonym ('k, 'v) Map = "('k \<times> 'v) list"

fun Map_get :: "('k, 'v) Map \<Rightarrow> 'k \<Rightarrow> 'v option" where
  "Map_get [] k = None"
| "Map_get ((k', v) # es) k = (if k' = k then Some v else Map_get es k)"

fun Map_set :: "'k \<Rightarrow> 'v \<Rightarrow> ('k, 'v) Map \<Rightarrow> ('k, 'v) Map" where
  "Map_set k v [] = [(k, v)]"
| "Map_set k v ((k', v') # es) = (if k' = k then (k, v) # es else (k', v') # Map_set k v es)"

fun Map_delete :: "'k \<Rightarrow> ('k, 'v) Map \<Rightarrow> ('k, 'v) Map" where
  "Map_delete k [] = []"
| "Map_delete k ((k', v) # es) = (if k' = k then es else (k', v) # Map_delete k es)"

definition Map_values :: "('k, 'v) Map \<Rightarrow> 'v list" where
  "Map_values es = map snd es"

section \<open>The collaborators outside the repository\<close>

text \<open>
  A thrown value is an \<^verbatim>\<open>Error\<close> with its message, or anything else (the handlers test
  \<^verbatim>\<open>error instanceof Error\<close>).
\<close>

datatype thrown = JsError string | JsOther

text \<open>
  The disk, as \<^verbatim>\<open>fs\<close> shows it to the storage class. A path holds nothing, a regular file
  with its bytes, or a directory. \<open>refused\<close> are the paths at which the system refuses to
  create, replace or remove an entry (no permission, no parent directory, no space).
  \<^item> \<^verbatim>\<open>existsSync\<close> never throws;
  \<^item> \<^verbatim>\<open>writeFileSync\<close> throws at a refused path and on a directory, and otherwise leaves
    a regular file with the bytes written;
  \<^item> \<^verbatim>\<open>readFileSync\<close> throws unless the path holds a regular file;
  \<^item> \<^verbatim>\<open>unlinkSync\<close> throws at a refused path and unless the path holds a regular file.
\<close>

datatype node = File Buffer | Directory

record fs =
  nodes :: "string \<Rightarrow> node option"
  refused :: "string \<Rightarrow> bool"

definition existsSync :: "fs \<Rightarrow> string \<Rightarrow> bool" where
  "existsSync d p = (nodes d p \<noteq> None)"

definition writeFileSync :: "fs \<Rightarrow> string \<Rightarrow> Buffer \<Rightarrow> thrown + fs" where
  "writeFileSync d p bytes =
     (if refused d p then Inl (JsError ''EACCES'')
      else case nodes d p of
             Some Directory \<Rightarrow> Inl (JsError ''EISDIR'')
           | _ \<Rightarrow> Inr (d\<lparr>nodes := (nodes d)(p := Some (File bytes))\<rparr>))"

definition readFileSync :: "fs \<Rightarrow> string \<Rightarrow> thrown + Buffer" where
  "readFileSync d p =
     (case nodes d p of
        None \<Rightarrow> Inl (JsError ''ENOENT'')
      | Some Directory \<Rightarrow> Inl (JsError ''EISDIR'')
      | Some (File bytes) \<Rightarrow> Inr bytes)"

definition unlinkSync :: "fs \<Rightarrow> string \<Rightarrow> thrown + fs" where
  "unlinkSync d p =
     (if refused d p then Inl (JsError ''EACCES'')
      else case nodes d p of
             None \<Rightarrow> Inl (JsError ''ENOENT'')
           | Some Directory \<Rightarrow> Inl (JsError ''EISDIR'')
           | Some (File bytes) \<Rightarrow> Inr (d\<lparr>nodes := (nodes d)(p := None)\<rparr>))"

text \<open>
  What the mirror sink calls back with: an error, no result, or a result with its
  \<^verbatim>\<open>secure_url\<close>.
\<close>

datatype cloud_outcome = CloudError thrown | CloudNoResult | CloudResult string

text \<open>
  The platform a deployment fixes, taken as a parameter:
  \<^item> \<open>joinMediaDir s\<close> is \<^verbatim>\<open>path.join(mediaDir, s)\<close>;
  \<^item> \<open>schemaParse d\<close> is \<^verbatim>\<open>insertMediaSchema.parse(d)\<close>: \<open>None\<close> when it returns,
    \<open>Some msg\<close> when it throws a \<^verbatim>\<open>ZodError\<close> with that message;
  \<^item> \<open>clock k\<close> is \<^verbatim>\<open>new Date().toISOString()\<close> as read for the \<open>k\<close>-th file of a batch;
  \<^item> \<open>upload_stream k bytes\<close> is what the mirror sink answers for the \<open>k\<close>-th file.
\<close>

record platform =
  joinMediaDir :: "string \<Rightarrow> string"
  schemaParse :: "InsertMedia \<Rightarrow> string option"
  clock :: "nat \<Rightarrow> string"
  upload_stream :: "nat \<Rightarrow> Buffer \<Rightarrow> cloud_outcome"

section \<open>MemStorage (server/storage.ts)\<close>

text \<open>
  The state of the process: the media map and its counter, the disk, and the lines
  written with \<^verbatim>\<open>console.error\<close>. The user map takes no part in any media operation and
  is left out.
\<close>

record world =
  media :: "(int, MediaFile) Map"
  mediaCurrentId :: int
  disk :: fs
  console :: "string list"

definition MemStorage :: "fs \<Rightarrow> world" where
  "MemStorage d = \<lparr>media = [], mediaCurrentId = 1, disk = d, console = []\<rparr>"

definition console_error :: "string \<Rightarrow> world \<Rightarrow> world" where
  "console_error line w = w\<lparr>console := console w @ [line]\<rparr>"

text \<open>The decimal numeral of a number, as a template literal prints it.\<close>

fun nat_toString :: "nat \<Rightarrow> string" where
  "nat_toString n =
     (if n < 10 then [''0123456789'' ! n]
      else nat_toString (n div 10) @ [''0123456789'' ! (n mod 10)])"

declare nat_toString.simps [simp del]

definition Number_toString :: "int \<Rightarrow> string" where
  "Number_toString i = (if i < 0 then CHR ''-'' # nat_toString (nat (- i)) else nat_toString (nat i))"

text \<open>\<^verbatim>\<open>path.join(mediaDir, `${id}_${media.fileName}`)\<close>\<close>

definition filePath :: "platform \<Rightarrow> int \<Rightarrow> string \<Rightarrow> string" where
  "filePath pf i name = joinMediaDir pf (Number_toString i @ ''_'' @ name)"

definition getAllMedia :: "world \<Rightarrow> MediaFile list" where
  "getAllMedia w = Map_values (media w)"

definition getMediaById :: "world \<Rightarrow> int \<Rightarrow> MediaFile option" where
  "getMediaById w i = Map_get (media w) i"

text \<open>
  \<open>createMedia\<close> takes the id and advances the counter first; a throwing write leaves
  through the exception, after the counter has moved and before the map is touched.
\<close>

definition createMedia ::
  "platform \<Rightarrow> world \<Rightarrow> InsertMedia \<Rightarrow> Buffer \<Rightarrow> (thrown + MediaFile) \<times> world" where
  "createMedia pf w insertMedia fileData =
     (let i = mediaCurrentId w;
          w1 = w\<lparr>mediaCurrentId := i + 1\<rparr>;
          m = spread_id insertMedia i
      in case writeFileSync (disk w1) (filePath pf i (fileName m)) fileData of
           Inl e \<Rightarrow> (Inl e, w1)
         | Inr d \<Rightarrow> (Inr m, w1\<lparr>disk := d, media := Map_set i m (media w1)\<rparr>))"

definition deleteMedia :: "platform \<Rightarrow> world \<Rightarrow> int \<Rightarrow> bool \<times> world" where
  "deleteMedia pf w i =
     (case Map_get (media w) i of
        None \<Rightarrow> (False, w)
      | Some m \<Rightarrow>
          (if existsSync (disk w) (filePath pf i (fileName m)) then
             (case unlinkSync (disk w) (filePath pf i (fileName m)) of
                Inl e \<Rightarrow> (False, console_error ''Error deleting media:'' w)
              | Inr d \<Rightarrow> (True, w\<lparr>disk := d, media := Map_delete i (media w)\<rparr>))
           else (True, w\<lparr>media := Map_delete i (media w)\<rparr>)))"

definition getMediaFile ::
  "platform \<Rightarrow> world \<Rightarrow> int \<Rightarrow> (Buffer \<times> MediaFile) option \<times> world" where
  "getMediaFile pf w i =
     (case Map_get (media w) i of
        None \<Rightarrow> (None, w)
      | Some m \<Rightarrow>
          (if \<not> existsSync (disk w) (filePath pf i (fileName m)) then (None, w)
           else case readFileSync (disk w) (filePath pf i (fileName m)) of
                  Inl e \<Rightarrow> (None, console_error ''Error reading media file:'' w)
                | Inr bytes \<Rightarrow> (Some (bytes, m), w)))"

section \<open>The HTTP surface (server/routes.ts)\<close>

subsection \<open>parseInt\<close>

text \<open>
  \<^verbatim>\<open>parseInt(s)\<close> with no radix, as ECMAScript defines it: white space is skipped, one sign
  is read, \<^verbatim>\<open>0x\<close> or \<^verbatim>\<open>0X\<close> selects radix 16, the longest run of digits of the radix is
  the numeral, and what follows it is ignored; with no digit the result is \<^verbatim>\<open>NaN\<close>, here
  \<open>None\<close>. A \<open>char\<close> is one of the first 256 code units, so the white space is the
  characters of that range. The value is the exact integer (JavaScript rounds it from
  \<open>2 ^ 53\<close> on).
\<close>

definition isWhiteSpace :: "char \<Rightarrow> bool" where
  "isWhiteSpace c = (c \<in> set [CHR 0x09, CHR 0x0A, CHR 0x0B, CHR 0x0C, CHR 0x0D, CHR 0x20, CHR 0xA0])"

fun position :: "'a \<Rightarrow> 'a list \<Rightarrow> nat option" where
  "position c [] = None"
| "position c (x # xs) = (if c = x then Some 0 else map_option Suc (position c xs))"

definition digitValue :: "char \<Rightarrow> nat option" where
  "digitValue c =
     (case position c ''0123456789abcdefghijklmnopqrstuvwxyz'' of
        Some v \<Rightarrow> Some v
      | None \<Rightarrow> map_option (\<lambda>v. v + 10) (position c ''ABCDEFGHIJKLMNOPQRSTUVWXYZ''))"

definition isRadixDigit :: "nat \<Rightarrow> char \<Rightarrow> bool" where
  "isRadixDigit R c = (case digitValue c of None \<Rightarrow> False | Some v \<Rightarrow> v < R)"

definition numeralValue :: "nat \<Rightarrow> string \<Rightarrow> int" where
  "numeralValue R Z =
     foldl (\<lambda>acc c. acc * int R + (case digitValue c of None \<Rightarrow> 0 | Some v \<Rightarrow> int v)) 0 Z"

definition parseInt :: "string \<Rightarrow> int option" where
  "parseInt inputString =
     (let S = dropWhile isWhiteSpace inputString;
          sign = (if take 1 S = ''-'' then - 1 else 1);
          S1 = (if take 1 S = ''+'' \<or> take 1 S = ''-'' then drop 1 S else S);
          hex = (take 2 S1 = ''0x'' \<or> take 2 S1 = ''0X'');
          R = (if hex then 16 else 10);
          S2 = (if hex then drop 2 S1 else S1);
          Z = takeWhile (isRadixDigit R) S2
      in if Z = [] then None else Some (sign * numeralValue R Z))"

subsection \<open>Responses\<close>

text \<open>
  What a handler has sent: the status (200 unless \<^verbatim>\<open>res.status\<close> set another), the
  headers it set with \<^verbatim>\<open>res.setHeader\<close>, and the body. What Express adds on its own when
  it sends (a charset, an ETag, the answer 304 to a conditional request) is not part of
  the handlers and is left out: requests carry the id and nothing else. The field
  \<^verbatim>\<open>size\<close> of a multer file is called \<open>size_bytes\<close> below, since \<open>size\<close> is a function of
  HOL.
\<close>

record uploadResult =
  result_id :: "int option"
  result_fileName :: string
  result_cloudinaryUrl :: "string option"
  result_status :: string
  result_message :: "string option"

datatype body =
    JsonMessage string
  | JsonMedia "MediaFile list"
  | JsonResults string "uploadResult list"
  | JsonFailure string string
  | SendBuffer Buffer
  | SendText string

record response =
  status :: nat
  headers :: "(string \<times> string) list"
  body :: body

definition json :: "nat \<Rightarrow> string \<Rightarrow> response" where
  "json code msg = \<lparr>status = code, headers = [], body = JsonMessage msg\<rparr>"

definition startsWith :: "string \<Rightarrow> string \<Rightarrow> bool" where
  "startsWith s p = (take (length p) s = p)"

text \<open>
  \<^verbatim>\<open>res.setHeader\<close> throws on a value that holds a character other than a tab, the
  characters from \<open>0x20\<close> to \<open>0x7e\<close> and those from \<open>0x80\<close> to \<open>0xff\<close> (Node.js validates
  header values so); otherwise it stores the value under the name. In the three handlers
  of an id the call stands in a \<^verbatim>\<open>try\<close> whose \<^verbatim>\<open>catch\<close> logs and answers 500 with a message.
\<close>

definition validHeaderValue :: "string \<Rightarrow> bool" where
  "validHeaderValue v =
     list_all (\<lambda>c. c = CHR 0x09 \<or> (32 \<le> (of_char c :: nat) \<and> (of_char c :: nat) \<noteq> 127)) v"

definition setHeader ::
  "string \<Rightarrow> string \<Rightarrow> (string \<times> string) list \<Rightarrow> thrown + (string \<times> string) list" where
  "setHeader name v hs =
     (if validHeaderValue v then Inr (Map_set name v hs)
      else Inl (JsError ''Invalid character in header content''))"

definition caught :: "string \<Rightarrow> string \<Rightarrow> (string \<times> string) list \<Rightarrow> world \<Rightarrow> response \<times> world" where
  "caught logged msg hs w =
     (\<lparr>status = 500, headers = hs, body = JsonMessage msg\<rparr>, console_error logged w)"

subsection \<open>GET /api/media, /api/media/:id, /api/media/:id/download\<close>

text \<open>
  Every handler is one \<^verbatim>\<open>try\<close> with a \<^verbatim>\<open>catch\<close> that logs and answers 500. In the handlers
  of the list, of the deletion and of the upload nothing inside the \<^verbatim>\<open>try\<close> throws (the
  storage catches its own errors, and the loop of the upload has a \<^verbatim>\<open>try\<close> of its own
  around each file), so their \<^verbatim>\<open>catch\<close> has no branch here. In the three handlers of an id
  it is \<^verbatim>\<open>res.setHeader\<close> that can throw.
\<close>

definition listHandler :: "world \<Rightarrow> response \<times> world" where
  "listHandler w = (\<lparr>status = 200, headers = [], body = JsonMedia (getAllMedia w)\<rparr>, w)"

definition getHandler :: "platform \<Rightarrow> world \<Rightarrow> string \<Rightarrow> response \<times> world" where
  "getHandler pf w idParam =
     (case parseInt idParam of
        None \<Rightarrow> (json 400 ''Invalid ID format'', w)
      | Some i \<Rightarrow>
          (case getMediaFile pf w i of
             (None, w') \<Rightarrow> (json 404 ''Media not found'', w')
           | (Some (bytes, mediaInfo), w') \<Rightarrow>
               (case setHeader ''Content-Type'' (fileType mediaInfo) [] of
                  Inl e \<Rightarrow> caught ''Error serving media:'' ''Failed to serve media file'' [] w'
                | Inr hs \<Rightarrow> (\<lparr>status = 200, headers = hs, body = SendBuffer bytes\<rparr>, w'))))"

definition downloadHandler :: "platform \<Rightarrow> world \<Rightarrow> string \<Rightarrow> response \<times> world" where
  \<open>downloadHandler pf w idParam =
     (case parseInt idParam of
        None \<Rightarrow> (json 400 ''Invalid ID format'', w)
      | Some i \<Rightarrow>
          (case getMediaFile pf w i of
             (None, w') \<Rightarrow> (json 404 ''Media not found'', w')
           | (Some (bytes, mediaInfo), w') \<Rightarrow>
               (case setHeader ''Content-Type'' (fileType mediaInfo) [] of
                  Inl e \<Rightarrow>
                    caught ''Error downloading media:'' ''Failed to download media file'' [] w'
                | Inr hs \<Rightarrow>
                    (case setHeader ''Content-Disposition''
                            (''attachment; filename="'' @ fileName mediaInfo @ ''"'') hs of
                       Inl e \<Rightarrow>
                         caught ''Error downloading media:'' ''Failed to download media file'' hs w'
                     | Inr hs' \<Rightarrow>
                         (\<lparr>status = 200, headers = hs', body = SendBuffer bytes\<rparr>, w')))))\<close>

subsection \<open>GET /api/media/:id/thumbnail\<close>

definition placeholderSvg :: "string \<Rightarrow> string" where
  \<open>placeholderSvg name =
     (''\<newline>          <svg xmlns="http://www.w3.org/2000/svg" width="400" height="300" viewBox="0 0 400 300">''
      @ ''\<newline>            <rect width="400" height="300" fill="#333333" />''
      @ ''\<newline>            <text x="50%" y="50%" fill="#ffffff" font-family="Arial" font-size="24" text-anchor="middle">''
      @ ''\<newline>              Video: '')
     @ name
     @ (''\<newline>            </text>''
        @ ''\<newline>          </svg>''
        @ ''\<newline>        '')\<close>

definition thumbnailHandler :: "platform \<Rightarrow> world \<Rightarrow> string \<Rightarrow> response \<times> world" where
  "thumbnailHandler pf w idParam =
     (case parseInt idParam of
        None \<Rightarrow> (json 400 ''Invalid ID format'', w)
      | Some i \<Rightarrow>
          (case getMediaById w i of
             None \<Rightarrow> (json 404 ''Media not found'', w)
           | Some mediaInfo \<Rightarrow>
               (if startsWith (fileType mediaInfo) ''video/'' then
                  (case setHeader ''Content-Type'' ''image/svg+xml'' [] of
                     Inl e \<Rightarrow> caught ''Error serving thumbnail:'' ''Failed to serve thumbnail'' [] w
                   | Inr hs \<Rightarrow>
                       (\<lparr>status = 200, headers = hs,
                         body = SendText (placeholderSvg (fileName mediaInfo))\<rparr>, w))
                else
                  (case getMediaFile pf w i of
                     (None, w') \<Rightarrow> (json 404 ''Media file not found'', w')
                   | (Some (bytes, info), w') \<Rightarrow>
                       (case setHeader ''Content-Type'' (fileType mediaInfo) [] of
                          Inl e \<Rightarrow>
                            caught ''Error serving thumbnail:'' ''Failed to serve thumbnail'' [] w'
                        | Inr hs \<Rightarrow>
                            (\<lparr>status = 200, headers = hs, body = SendBuffer bytes\<rparr>, w'))))))"

subsection \<open>DELETE /api/media/:id\<close>

definition deleteHandler :: "platform \<Rightarrow> world \<Rightarrow> string \<Rightarrow> response \<times> world" where
  "deleteHandler pf w idParam =
     (case parseInt idParam of
        None \<Rightarrow> (json 400 ''Invalid ID format'', w)
      | Some i \<Rightarrow>
          (case deleteMedia pf w i of
             (False, w') \<Rightarrow> (json 404 ''Media not found or already deleted'', w')
           | (True, w') \<Rightarrow> (json 200 ''Media deleted successfully'', w')))"

subsection \<open>The multer middleware of POST /api/media/upload\<close>








subsection \<open>POST /api/media/upload\<close>









subsection \<open>POST /api/media/upload, the variant that mirrors to the cloud sink\<close>





section \<open>Histories of the storage\<close>

text \<open>
  What can happen to the state between two observations: a call of \<open>createMedia\<close>,
  \<open>deleteMedia\<close> or \<open>getMediaFile\<close>, a line that a handler writes with
  \<^verbatim>\<open>console.error\<close>, or anything at all happening to the disk from outside the process.
\<close>

datatype event =
    Create InsertMedia Buffer
  | Delete int
  | ReadFile int
  | ConsoleError string
  | DiskChange fs

fun step :: "platform \<Rightarrow> world \<Rightarrow> event \<Rightarrow> world" where
  "step pf w (Create m bytes) = snd (createMedia pf w m bytes)"
| "step pf w (Delete i) = snd (deleteMedia pf w i)"
| "step pf w (ReadFile i) = snd (getMediaFile pf w i)"
| "step pf w (ConsoleError line) = console_error line w"
| "step pf w (DiskChange d) = w\<lparr>disk := d\<rparr>"

fun exec :: "platform \<Rightarrow> world \<Rightarrow> event list \<Rightarrow> world" where
  "exec pf w [] = w"
| "exec pf w (e # es) = exec pf (step pf w e) es"

text \<open>The records that the successful calls of \<open>createMedia\<close> returned, in the order of the calls.\<close>

fun returned :: "platform \<Rightarrow> world \<Rightarrow> event \<Rightarrow> MediaFile list" where
  "returned pf w (Create m bytes) =
     (case fst (createMedia pf w m bytes) of Inl e \<Rightarrow> [] | Inr r \<Rightarrow> [r])"
| "returned pf w (Delete i) = []"
| "returned pf w (ReadFile i) = []"
| "returned pf w (ConsoleError line) = []"
| "returned pf w (DiskChange d) = []"

fun created :: "platform \<Rightarrow> world \<Rightarrow> event list \<Rightarrow> MediaFile list" where
  "created pf w [] = []"
| "created pf w (e # es) = returned pf w e @ created pf (step pf w e) es"

fun isDelete :: "event \<Rightarrow> bool" where
  "isDelete (Delete i) = True"
| "isDelete e = False"

section \<open>Example inputs\<close>

text \<open>
  A platform, two records and a few disks and states, at which the theorems below are
  instantiated.
\<close>

definition examplePlatform :: platform where
  "examplePlatform =
     \<lparr>joinMediaDir = append ''/srv/media_storage/'',
       schemaParse = (\<lambda>d. if fileName d = [] then Some ''Required'' else None),
       clock = (\<lambda>k. ''2024-06-01T12:00:00.000Z''),
       upload_stream = (\<lambda>k bytes. if bytes = [] then CloudError JsOther else CloudResult ''https://res.example/v1/a'')\<rparr>"

definition photo :: InsertMedia where
  "photo = \<lparr>fileName = ''a.png'', fileType = ''image/png'', fileSize = 3,
            uploadDate = ''2024-06-01T12:00:00.000Z'', metadata = [(''originalName'', ''a.png'')]\<rparr>"

definition clip :: InsertMedia where
  "clip = \<lparr>fileName = ''b.mp4'', fileType = ''video/mp4'', fileSize = 2,
            uploadDate = ''2024-06-01T12:00:01.000Z'', metadata = [(''originalName'', ''b.mp4'')]\<rparr>"

definition emptyDisk :: fs where
  "emptyDisk = \<lparr>nodes = (\<lambda>p. None), refused = (\<lambda>p. False)\<rparr>"

definition fullDisk :: fs where
  "fullDisk = \<lparr>nodes = (\<lambda>p. None), refused = (\<lambda>p. True)\<rparr>"

definition readOnlyDisk :: fs where
  "readOnlyDisk =
     \<lparr>nodes = (\<lambda>p. if p = ''/srv/media_storage/1_a.png'' then Some (File [1, 2, 3]) else None),
       refused = (\<lambda>p. True)\<rparr>"

definition directoryDisk :: fs where
  "directoryDisk =
     \<lparr>nodes = (\<lambda>p. if p = ''/srv/media_storage/1_a.png'' then Some Directory else None),
       refused = (\<lambda>p. False)\<rparr>"

definition readOnlyWorld :: world where
  "readOnlyWorld =
     exec examplePlatform (MemStorage emptyDisk) [Create photo [1, 2, 3], DiskChange readOnlyDisk]"

definition photoWorld :: world where
  "photoWorld = exec examplePlatform (MemStorage emptyDisk) [Create photo [1, 2, 3]]"

definition fullDiskWorld :: world where
  "fullDiskWorld = exec examplePlatform (MemStorage emptyDisk) [DiskChange fullDisk]"

definition directoryWorld :: world where
  "directoryWorld =
     exec examplePlatform (MemStorage emptyDisk) [Create photo [1, 2, 3], DiskChange directoryDisk]"

definition clipWorld :: world where
  "clipWorld = exec examplePlatform (MemStorage emptyDisk) [Create clip [4, 5]]"

definition oddPhoto :: InsertMedia where
  "oddPhoto = photo\<lparr>fileType := ''image/png'' @ [CHR 0x0A]\<rparr>"

definition oddTypeWorld :: world where
  "oddTypeWorld = exec examplePlatform (MemStorage emptyDisk) [Create oddPhoto [1, 2, 3]]"







section \<open>The invariant of the registry\<close>

text \<open>
  In every state that the operations reach from a new storage, the keys of the map are
  distinct, each record carries its key as its id, and every key is below the counter.
\<close>

definition registry_inv :: "world \<Rightarrow> bool" where
  "registry_inv w = (distinct (map fst (media w))
         \<and> list_all (\<lambda>(k, v). id_num v = k \<and> k < mediaCurrentId w) (media w))"

section \<open>Lemmas on the Map, the invariant and histories\<close>


lemma Map_get_Map_set_other: "k' \<noteq> k \<Longrightarrow> Map_get (Map_set k v es) k' = Map_get es k'"
  by (induction es) auto

lemma Map_get_None_iff: "Map_get es k = None \<longleftrightarrow> k \<notin> fst ` set es"
  by (induction es) (auto split: if_splits)

lemma Map_set_fresh: "k \<notin> fst ` set es \<Longrightarrow> Map_set k v es = es @ [(k, v)]"
  by (induction es) auto

lemma Map_delete_filter: "distinct (map fst es) \<Longrightarrow> Map_delete k es = filter (\<lambda>(k', v). k' \<noteq> k) es"
proof (induction es)
  case Nil
  then show ?case by simp
next
  case (Cons a es)
  obtain k' v where a: "a = (k', v)" by (cases a)
  show ?case
  proof (cases "k' = k")
    case True
    with Cons.prems a have "k \<notin> fst ` set es" by auto
    then have "filter (\<lambda>(k', v). k' \<noteq> k) es = es"
      by (induction es) auto
    with True a show ?thesis by simp
  next
    case False
    with Cons a show ?thesis by simp
  qed
qed

lemma Map_get_Map_delete_None: "Map_get es k = None \<Longrightarrow> Map_get (Map_delete j es) k = None"
  by (induction es) auto

lemma inv_MemStorage: "registry_inv (MemStorage d)"
  by (simp add: registry_inv_def MemStorage_def)

lemma inv_fresh: "registry_inv w \<Longrightarrow> mediaCurrentId w \<notin> fst ` set (media w)"
  by (auto simp: registry_inv_def list_all_iff)

lemma createMedia_cases:
  "createMedia pf w m b = (Inl e, w') \<Longrightarrow> w' = w\<lparr>mediaCurrentId := mediaCurrentId w + 1\<rparr>"
  "createMedia pf w m b = (Inr r, w') \<Longrightarrow>
     r = spread_id m (mediaCurrentId w)
     \<and> (\<exists>d. w' = w\<lparr>mediaCurrentId := mediaCurrentId w + 1, disk := d,
                    media := Map_set (mediaCurrentId w) r (media w)\<rparr>)"
  by (auto simp: createMedia_def Let_def split: sum.splits)

lemma id_num_spread_id: "id_num (spread_id m i) = i"
  by (simp add: spread_id_def InsertMedia.defs MediaFile.defs)

lemma console_error_fields [simp]:
  "media (console_error l w) = media w"
  "mediaCurrentId (console_error l w) = mediaCurrentId w"
  "disk (console_error l w) = disk w"
  by (simp_all add: console_error_def)

lemma step_Create:
  "(\<exists>e. createMedia pf w m b = (Inl e, step pf w (Create m b))
        \<and> media (step pf w (Create m b)) = media w
        \<and> returned pf w (Create m b) = [])
   \<or> (createMedia pf w m b = (Inr (spread_id m (mediaCurrentId w)), step pf w (Create m b))
        \<and> media (step pf w (Create m b)) = Map_set (mediaCurrentId w) (spread_id m (mediaCurrentId w)) (media w)
        \<and> returned pf w (Create m b) = [spread_id m (mediaCurrentId w)])"
  by (auto simp: createMedia_def Let_def split: sum.splits)

lemma counter_Create: "mediaCurrentId (step pf w (Create m b)) = mediaCurrentId w + 1"
  by (auto simp: createMedia_def Let_def split: sum.splits)

lemma step_Delete:
  "(media (step pf w (Delete i)) = media w \<or> media (step pf w (Delete i)) = Map_delete i (media w))
   \<and> mediaCurrentId (step pf w (Delete i)) = mediaCurrentId w"
  by (auto simp: deleteMedia_def console_error_def split: option.splits sum.splits)

lemma step_ReadFile:
  "media (step pf w (ReadFile i)) = media w \<and> mediaCurrentId (step pf w (ReadFile i)) = mediaCurrentId w"
  by (auto simp: getMediaFile_def console_error_def split: option.splits sum.splits)

lemma counter_step: "mediaCurrentId w \<le> mediaCurrentId (step pf w e)"
  by (cases e) (simp_all add: counter_Create step_Delete step_ReadFile del: step.simps(1,2,3))

lemma set_Map_delete: "set (Map_delete k es) \<subseteq> set es"
  by (induction es) (auto split: if_splits)

lemma distinct_Map_delete: "distinct (map fst es) \<Longrightarrow> distinct (map fst (Map_delete k es))"
  by (simp add: Map_delete_filter distinct_map_filter)

lemma inv_step: assumes "registry_inv w" shows "registry_inv (step pf w e)"
proof (cases e)
  case (Create m b)
  have fresh: "mediaCurrentId w \<notin> fst ` set (media w)" using assms by (rule inv_fresh)
  from step_Create [of pf w m b] show ?thesis
  proof
    assume "\<exists>e. createMedia pf w m b = (Inl e, step pf w (Create m b))
        \<and> media (step pf w (Create m b)) = media w \<and> returned pf w (Create m b) = []"
    then have "media (step pf w (Create m b)) = media w" by blast
    with assms counter_Create [of pf w m b] Create show ?thesis
      by (auto simp: registry_inv_def list_all_iff simp del: step.simps)
  next
    assume "createMedia pf w m b = (Inr (spread_id m (mediaCurrentId w)), step pf w (Create m b))
        \<and> media (step pf w (Create m b)) = Map_set (mediaCurrentId w) (spread_id m (mediaCurrentId w)) (media w)
        \<and> returned pf w (Create m b) = [spread_id m (mediaCurrentId w)]"
    then have "media (step pf w (Create m b)) = media w @ [(mediaCurrentId w, spread_id m (mediaCurrentId w))]"
      using fresh by (simp add: Map_set_fresh del: step.simps)
    with assms fresh counter_Create [of pf w m b] Create show ?thesis
      by (auto simp: registry_inv_def list_all_iff id_num_spread_id simp del: step.simps)
  qed
next
  case (Delete i)
  with assms step_Delete [of pf w i] set_Map_delete [of i "media w"] distinct_Map_delete [of "media w" i]
  show ?thesis
    by (auto simp: registry_inv_def list_all_iff simp del: step.simps)
next
  case (ReadFile i)
  with assms step_ReadFile [of pf w i] show ?thesis
    by (auto simp: registry_inv_def simp del: step.simps)
next
  case (ConsoleError l)
  with assms show ?thesis by (simp add: registry_inv_def)
next
  case (DiskChange d)
  with assms show ?thesis by (simp add: registry_inv_def)
qed

lemma inv_exec: "registry_inv w \<Longrightarrow> registry_inv (exec pf w es)"
  by (induction es arbitrary: w) (simp_all add: inv_step del: step.simps)

lemma counter_exec: "mediaCurrentId w \<le> mediaCurrentId (exec pf w es)"
proof (induction es arbitrary: w)
  case Nil
  show ?case by simp
next
  case (Cons e es)
  have "mediaCurrentId w \<le> mediaCurrentId (step pf w e)" by (rule counter_step)
  also have "\<dots> \<le> mediaCurrentId (exec pf (step pf w e) es)" by (rule Cons.IH)
  finally show ?case by simp
qed

lemma absent_step:
  assumes "k < mediaCurrentId w" and "Map_get (media w) k = None"
  shows "Map_get (media (step pf w e)) k = None"
proof (cases e)
  case (Create m b)
  with assms step_Create [of pf w m b] show ?thesis
    by (auto simp: Map_get_Map_set_other simp del: step.simps)
next
  case (Delete i)
  with assms step_Delete [of pf w i] show ?thesis
    by (auto simp: Map_get_Map_delete_None simp del: step.simps)
next
  case (ReadFile i)
  with assms step_ReadFile [of pf w i] show ?thesis by (simp del: step.simps)
next
  case (ConsoleError l)
  with assms show ?thesis by simp
next
  case (DiskChange d)
  with assms show ?thesis by simp
qed

lemma absent_exec:
  "k < mediaCurrentId w \<Longrightarrow> Map_get (media w) k = None \<Longrightarrow> Map_get (media (exec pf w es)) k = None"
proof (induction es arbitrary: w)
  case Nil
  then show ?case by simp
next
  case (Cons e es)
  have "k < mediaCurrentId (step pf w e)"
    using Cons.prems(1) counter_step [of w pf e] by linarith
  moreover have "Map_get (media (step pf w e)) k = None"
    using Cons.prems by (rule absent_step)
  ultimately show ?case using Cons.IH by simp
qed

lemma returned_id: "r \<in> set (returned pf w e) \<Longrightarrow> id_num r = mediaCurrentId w"
  by (cases e) (auto simp: createMedia_def Let_def id_num_spread_id split: sum.splits)

lemma returned_counter: "r \<in> set (returned pf w e) \<Longrightarrow> mediaCurrentId (step pf w e) = mediaCurrentId w + 1"
  by (cases e) (auto simp: counter_Create simp del: step.simps)

lemma created_lower: "r \<in> set (created pf w es) \<Longrightarrow> mediaCurrentId w \<le> id_num r"
proof (induction es arbitrary: w)
  case Nil
  then show ?case by simp
next
  case (Cons e es)
  from Cons.prems have "r \<in> set (returned pf w e) \<or> r \<in> set (created pf (step pf w e) es)" by simp
  then show ?case
  proof
    assume "r \<in> set (returned pf w e)"
    then show ?thesis by (simp add: returned_id)
  next
    assume "r \<in> set (created pf (step pf w e) es)"
    then have "mediaCurrentId (step pf w e) \<le> id_num r" by (rule Cons.IH)
    with counter_step [of w pf e] show ?thesis by linarith
  qed
qed

lemma created_sorted: "sorted_wrt (<) (map id_num (created pf w es))"
proof (induction es arbitrary: w)
  case Nil
  show ?case by simp
next
  case (Cons e es)
  have "id_num r < id_num r'"
    if "r \<in> set (returned pf w e)" and "r' \<in> set (created pf (step pf w e) es)" for r r'
    using that returned_id [of r pf w e] returned_counter [of r pf w e]
      created_lower [of r' pf "step pf w e" es] by linarith
  moreover have "sorted_wrt (<) (map id_num (returned pf w e))"
    by (cases e) (auto split: sum.splits)
  ultimately show ?case using Cons.IH [of "step pf w e"]
    by (auto simp: sorted_wrt_append)
qed

lemma Map_get_filter:
  "Map_get (filter (\<lambda>(k', v). k' \<noteq> i) es) j = (if j = i then None else Map_get es j)"
  by (induction es) auto

lemma Map_get_Map_delete:
  "distinct (map fst es) \<Longrightarrow> Map_get (Map_delete i es) j = (if j = i then None else Map_get es j)"
  by (simp add: Map_delete_filter Map_get_filter)

lemma filter_filter_absorb:
  "(\<And>x. x \<in> set xs \<Longrightarrow> P x \<Longrightarrow> Q x) \<Longrightarrow> filter P (filter Q xs) = filter P xs"
  by (induction xs) auto

lemma media_exec_entries:
  assumes "registry_inv w"
  shows "media (exec pf w es) =
         filter (\<lambda>(k, v). Map_get (media (exec pf w es)) k \<noteq> None)
           (media w @ map (\<lambda>r. (id_num r, r)) (created pf w es))"
  using assms
proof (induction es arbitrary: w)
  case Nil
  have "\<forall>x \<in> set (media w). (case x of (k, v) \<Rightarrow> Map_get (media w) k \<noteq> None)"
    by (auto simp: Map_get_None_iff intro: rev_image_eqI)
  then show ?case by (simp add: filter_id_conv)
next
  case (Cons e es)
  let ?w1 = "step pf w e"
  let ?F = "exec pf ?w1 es"
  let ?P = "\<lambda>(k, v). Map_get (media ?F) k \<noteq> None"
  have wf1: "registry_inv ?w1" using Cons.prems by (rule inv_step)
  have IH: "media ?F = filter ?P (media ?w1 @ map (\<lambda>r. (id_num r, r)) (created pf ?w1 es))"
    using wf1 by (rule Cons.IH)
  have key: "filter ?P (media ?w1) = filter ?P (media w @ map (\<lambda>r. (id_num r, r)) (returned pf w e))"
  proof (cases e)
    case (Create m b)
    have fresh: "mediaCurrentId w \<notin> fst ` set (media w)" using Cons.prems by (rule inv_fresh)
    from step_Create [of pf w m b] fresh Create show ?thesis
      by (auto simp: Map_set_fresh id_num_spread_id simp del: step.simps returned.simps)
  next
    case (Delete i)
    have cnt: "mediaCurrentId ?w1 = mediaCurrentId w"
      using step_Delete [of pf w i] Delete by simp
    have "media ?w1 = media w \<or> media ?w1 = Map_delete i (media w)"
      using step_Delete [of pf w i] Delete by simp
    then show ?thesis
    proof
      assume "media ?w1 = media w"
      with Delete show ?thesis by simp
    next
      assume del: "media ?w1 = Map_delete i (media w)"
      have dist: "distinct (map fst (media w))" using Cons.prems by (simp add: registry_inv_def)
      have gone: "Map_get (media ?F) i = None" if "i \<in> fst ` set (media w)"
      proof -
        from that Cons.prems have "i < mediaCurrentId w" by (auto simp: registry_inv_def list_all_iff)
        then have "i < mediaCurrentId ?w1" using cnt by simp
        moreover have "Map_get (media ?w1) i = None" using del dist by (simp add: Map_get_Map_delete)
        ultimately show ?thesis by (rule absent_exec)
      qed
      have "filter ?P (filter (\<lambda>(k', v). k' \<noteq> i) (media w)) = filter ?P (media w)"
      proof (rule filter_filter_absorb)
        fix x assume x: "x \<in> set (media w)" and px: "?P x"
        obtain k v where kv: "x = (k, v)" by (cases x)
        have "Map_get (media ?F) i = None" if "k = i"
          using x kv that gone by force
        with px kv show "case x of (k', v) \<Rightarrow> k' \<noteq> i" by auto
      qed
      with del dist Delete show ?thesis by (simp add: Map_delete_filter)
    qed
  next
    case (ReadFile i)
    with step_ReadFile [of pf w i] show ?thesis by simp
  next
    case (ConsoleError l)
    then show ?thesis by simp
  next
    case (DiskChange d)
    then show ?thesis by simp
  qed
  show ?case using IH key by (simp del: step.simps returned.simps)
qed

lemma media_exec_no_delete:
  assumes "registry_inv w" and "\<not> list_ex isDelete es"
  shows "media (exec pf w es) = media w @ map (\<lambda>r. (id_num r, r)) (created pf w es)"
  using assms
proof (induction es arbitrary: w)
  case Nil
  show ?case by simp
next
  case (Cons e es)
  have wf1: "registry_inv (step pf w e)" using Cons.prems(1) by (rule inv_step)
  have "media (step pf w e) = media w @ map (\<lambda>r. (id_num r, r)) (returned pf w e)"
  proof (cases e)
    case (Create m b)
    have fresh: "mediaCurrentId w \<notin> fst ` set (media w)" using Cons.prems(1) by (rule inv_fresh)
    from step_Create [of pf w m b] fresh Create show ?thesis
      by (auto simp: Map_set_fresh id_num_spread_id simp del: step.simps returned.simps)
  next
    case (Delete i)
    with Cons.prems(2) show ?thesis by simp
  next
    case (ReadFile i)
    with step_ReadFile [of pf w i] show ?thesis by simp
  next
    case (ConsoleError l)
    then show ?thesis by simp
  next
    case (DiskChange d)
    then show ?thesis by simp
  qed
  moreover have "\<not> list_ex isDelete es" using Cons.prems(2) by simp
  ultimately show ?case using Cons.IH [OF wf1] by (simp del: step.simps returned.simps)
qed

section \<open>The claims\<close>

lemma reachable_distinct: "distinct (map fst (media (exec pf (MemStorage d) history)))"
  using inv_exec [OF inv_MemStorage, of pf d history] by (simp add: registry_inv_def)

subsection \<open>C1: what deleteMedia returns and removes\<close>

text \<open>
  C1, as the claim states it, fails. A record is registered, its blob is on the disk, and
  the disk refuses to remove it: \<^verbatim>\<open>unlinkSync\<close> throws inside the \<^verbatim>\<open>try\<close>, the \<^verbatim>\<open>catch\<close>
  logs and returns false, and \<^verbatim>\<open>this.media.delete(id)\<close> is never reached: the call
  returns false and the entry stays in the registry.
\<close>

theorem deleteMedia_keeps_entry_counterexample:
  "getMediaById readOnlyWorld 1 = Some (spread_id photo 1)
   \<and> existsSync (disk readOnlyWorld) (filePath examplePlatform 1 ''a.png'')
   \<and> fst (deleteMedia examplePlatform readOnlyWorld 1) = False
   \<and> getMediaById (snd (deleteMedia examplePlatform readOnlyWorld 1)) 1 = Some (spread_id photo 1)"
  by code_simp

text \<open>
  C1, amended: in every state reached from a new storage, \<open>deleteMedia\<close> returns false
  and changes nothing when no record has the id. Otherwise, when the blob is absent, or
  present and \<^verbatim>\<open>unlinkSync\<close> succeeds, it removes the entry (and no other) and returns true;
  when \<^verbatim>\<open>unlinkSync\<close> throws, the failure is logged and not propagated, the call returns
  false and the entry stays.
\<close>

theorem deleteMedia_outcomes:
  assumes "w = exec pf (MemStorage d) history"
  shows "(getMediaById w i = None \<longrightarrow> deleteMedia pf w i = (False, w))
       \<and> (\<forall>m. getMediaById w i = Some m \<longrightarrow>
            (let p = filePath pf i (fileName m); r = deleteMedia pf w i
             in (\<not> existsSync (disk w) p \<longrightarrow>
                   r = (True, w\<lparr>media := Map_delete i (media w)\<rparr>))
              \<and> (\<forall>d'. existsSync (disk w) p \<and> unlinkSync (disk w) p = Inr d' \<longrightarrow>
                   r = (True, w\<lparr>disk := d', media := Map_delete i (media w)\<rparr>))
              \<and> (\<forall>e. existsSync (disk w) p \<and> unlinkSync (disk w) p = Inl e \<longrightarrow>
                   r = (False, console_error ''Error deleting media:'' w))
              \<and> (fst r \<longrightarrow> getMediaById (snd r) i = None
                    \<and> (\<forall>j. j \<noteq> i \<longrightarrow> getMediaById (snd r) j = getMediaById w j))
              \<and> (\<not> fst r \<longrightarrow> getMediaById (snd r) i = Some m)))"
proof -
  have dist: "distinct (map fst (media w))" unfolding assms by (rule reachable_distinct)
  show ?thesis
    by (auto simp: deleteMedia_def getMediaById_def Map_get_Map_delete [OF dist] console_error_def
          Let_def
        split: sum.splits)
qed

text \<open>The theorem at a registered record whose blob can be removed.\<close>

theorem deleteMedia_outcomes_witness:
  "getMediaById photoWorld 1 = Some (spread_id photo 1)
   \<and> fst (deleteMedia examplePlatform photoWorld 1) = True
   \<and> getMediaById (snd (deleteMedia examplePlatform photoWorld 1)) 1 = None"
proof -
  have h: "photoWorld = exec examplePlatform (MemStorage emptyDisk) [Create photo [1, 2, 3]]"
    by (simp add: photoWorld_def)
  have g: "getMediaById photoWorld 1 = Some (spread_id photo 1)" by code_simp
  have t: "fst (deleteMedia examplePlatform photoWorld 1) = True" by code_simp
  from deleteMedia_outcomes [OF h, of 1] g t show ?thesis by (simp add: Let_def)
qed

subsection \<open>C2: a failed write registers nothing\<close>

text \<open>
  C2: when \<open>createMedia\<close> fails to write the bytes, in a state reached from a new storage,
  the registry map is as it was, and whatever happens later (\<open>later\<close> is any history),
  \<open>getMediaById\<close> finds nothing under the id that the failed call took, and no record
  of \<open>getAllMedia\<close> carries it.
\<close>

theorem createMedia_failure_not_registered:
  assumes "w = exec pf (MemStorage d) history"
    and "createMedia pf w m bytes = (Inl e, w')"
  shows "media w' = media w
       \<and> getMediaById (exec pf w' later) (mediaCurrentId w) = None
       \<and> mediaCurrentId w \<notin> id_num ` set (getAllMedia (exec pf w' later))"
proof -
  have wfw: "registry_inv w" unfolding assms(1) by (rule inv_exec [OF inv_MemStorage])
  have w': "w' = w\<lparr>mediaCurrentId := mediaCurrentId w + 1\<rparr>"
    using assms(2) by (rule createMedia_cases)
  have wfw': "registry_inv w'" using wfw unfolding w' by (auto simp: registry_inv_def list_all_iff)
  have absent: "Map_get (media w') (mediaCurrentId w) = None"
    using inv_fresh [OF wfw] by (simp add: w' Map_get_None_iff)
  have "mediaCurrentId w < mediaCurrentId w'" by (simp add: w')
  then have gone: "Map_get (media (exec pf w' later)) (mediaCurrentId w) = None"
    using absent by (rule absent_exec)
  have "registry_inv (exec pf w' later)" using wfw' by (rule inv_exec)
  then have "\<forall>(k, v) \<in> set (media (exec pf w' later)). id_num v = k"
    by (auto simp: registry_inv_def list_all_iff)
  with gone have "mediaCurrentId w \<notin> id_num ` set (getAllMedia (exec pf w' later))"
    by (force simp: getAllMedia_def Map_values_def Map_get_None_iff)
  with gone w' show ?thesis by (simp add: getMediaById_def)
qed

text \<open>
  The theorem on a disk that refuses the write; the disk recovers and the next
  \<open>createMedia\<close> registers its record under the next id.
\<close>

theorem createMedia_failure_not_registered_witness:
  "fst (createMedia examplePlatform fullDiskWorld photo [1, 2, 3]) = Inl (JsError ''EACCES'')
   \<and> mediaCurrentId fullDiskWorld = 1
   \<and> getAllMedia (exec examplePlatform (snd (createMedia examplePlatform fullDiskWorld photo [1, 2, 3]))
        [DiskChange emptyDisk, Create clip [4, 5]]) = [spread_id clip 2]
   \<and> getMediaById (exec examplePlatform (snd (createMedia examplePlatform fullDiskWorld photo [1, 2, 3]))
        [DiskChange emptyDisk, Create clip [4, 5]]) 1 = None"
proof -
  have h: "fullDiskWorld = exec examplePlatform (MemStorage emptyDisk) [DiskChange fullDisk]"
    by (simp add: fullDiskWorld_def)
  have f: "fst (createMedia examplePlatform fullDiskWorld photo [1, 2, 3]) = Inl (JsError ''EACCES'')"
    by code_simp
  then have c: "createMedia examplePlatform fullDiskWorld photo [1, 2, 3]
           = (Inl (JsError ''EACCES''), snd (createMedia examplePlatform fullDiskWorld photo [1, 2, 3]))"
    by (metis prod.collapse)
  have n: "mediaCurrentId fullDiskWorld = 1" by code_simp
  have a: "getAllMedia (exec examplePlatform (snd (createMedia examplePlatform fullDiskWorld photo [1, 2, 3]))
             [DiskChange emptyDisk, Create clip [4, 5]]) = [spread_id clip 2]"
    by code_simp
  from createMedia_failure_not_registered [OF h c, of "[DiskChange emptyDisk, Create clip [4, 5]]"]
    f n a show ?thesis by simp
qed

subsection \<open>C3: ids are unique and increase\<close>

text \<open>
  C3: along every history of a new storage (calls of \<open>createMedia\<close>, \<open>deleteMedia\<close> and
  \<open>getMediaFile\<close>, console lines and changes of the disk), the ids of the records that the successful
  calls of \<open>createMedia\<close> return, in the order of the calls, are strictly increasing: each
  is greater than every id returned before it, so none is used twice, deletions or not.
  They start at 1.
\<close>

theorem media_ids_strictly_increasing:
  "sorted_wrt (<) (map id_num (created pf (MemStorage d) history))
   \<and> list_all (\<lambda>r. 1 \<le> id_num r) (created pf (MemStorage d) history)"
  using created_lower [of _ pf "MemStorage d" history]
  by (auto simp: created_sorted list_all_iff MemStorage_def)

text \<open>The theorem on a history that deletes record 1 before the second creation.\<close>

theorem media_ids_strictly_increasing_witness:
  "map id_num (created examplePlatform (MemStorage emptyDisk)
      [Create photo [1, 2, 3], Delete 1, Create clip [4, 5]]) = [1, 2]
   \<and> sorted_wrt (<) (map id_num (created examplePlatform (MemStorage emptyDisk)
      [Create photo [1, 2, 3], Delete 1, Create clip [4, 5]]))"
proof -
  have "map id_num (created examplePlatform (MemStorage emptyDisk)
      [Create photo [1, 2, 3], Delete 1, Create clip [4, 5]]) = [1, 2]"
    by code_simp
  with media_ids_strictly_increasing [of examplePlatform emptyDisk
      "[Create photo [1, 2, 3], Delete 1, Create clip [4, 5]]"]
  show ?thesis by blast
qed

subsection \<open>C4: createMedia, then getMediaFile\<close>



subsection \<open>C5: getAllMedia lists in creation order\<close>

text \<open>
  C5: after any history of a new storage, \<open>getAllMedia\<close> returns the records created so
  far that are still registered, in the order of their creation; with no deletion in the
  history it returns every record created, in the order of creation.
\<close>

theorem getAllMedia_creation_order:
  "getAllMedia (exec pf (MemStorage d) history)
     = filter (\<lambda>r. getMediaById (exec pf (MemStorage d) history) (id_num r) \<noteq> None)
         (created pf (MemStorage d) history)
   \<and> (\<not> list_ex isDelete history \<longrightarrow>
        getAllMedia (exec pf (MemStorage d) history) = created pf (MemStorage d) history)"
proof -
  let ?F = "exec pf (MemStorage d) history"
  let ?cs = "created pf (MemStorage d) history"
  have "media ?F = filter (\<lambda>(k, v). Map_get (media ?F) k \<noteq> None) (map (\<lambda>r. (id_num r, r)) ?cs)"
    using media_exec_entries [OF inv_MemStorage, of pf d history] by (simp add: MemStorage_def)
  then have "map snd (media ?F)
      = map snd (filter (\<lambda>(k, v). Map_get (media ?F) k \<noteq> None) (map (\<lambda>r. (id_num r, r)) ?cs))"
    by simp
  also have "\<dots> = filter (\<lambda>r. Map_get (media ?F) (id_num r) \<noteq> None) ?cs"
    by (simp add: filter_map comp_def)
  finally have general: "getAllMedia ?F = filter (\<lambda>r. getMediaById ?F (id_num r) \<noteq> None) ?cs"
    by (simp add: getAllMedia_def Map_values_def getMediaById_def)
  have "getAllMedia ?F = ?cs" if "\<not> list_ex isDelete history"
    using media_exec_no_delete [OF inv_MemStorage that, of pf d]
    by (simp add: getAllMedia_def Map_values_def comp_def MemStorage_def)
  with general show ?thesis by blast
qed

text \<open>
  The theorem after three creations, which take the ids 1, 2 and 3.
\<close>

theorem getAllMedia_creation_order_witness:
  "getAllMedia (exec examplePlatform (MemStorage emptyDisk)
      [Create photo [1, 2, 3], Create clip [4, 5], Create photo [6]])
   = [spread_id photo 1, spread_id clip 2, spread_id photo 3]
   \<and> created examplePlatform (MemStorage emptyDisk)
      [Create photo [1, 2, 3], Create clip [4, 5], Create photo [6]]
   = [spread_id photo 1, spread_id clip 2, spread_id photo 3]"
proof -
  have n: "\<not> list_ex isDelete [Create photo [1, 2, 3], Create clip [4, 5], Create photo [6]]"
    by simp
  have c: "created examplePlatform (MemStorage emptyDisk)
      [Create photo [1, 2, 3], Create clip [4, 5], Create photo [6]]
   = [spread_id photo 1, spread_id clip 2, spread_id photo 3]"
    by code_simp
  from getAllMedia_creation_order [of examplePlatform emptyDisk
      "[Create photo [1, 2, 3], Create clip [4, 5], Create photo [6]]"] n
  have "getAllMedia (exec examplePlatform (MemStorage emptyDisk)
      [Create photo [1, 2, 3], Create clip [4, 5], Create photo [6]])
   = created examplePlatform (MemStorage emptyDisk)
      [Create photo [1, 2, 3], Create clip [4, 5], Create photo [6]]"
    by blast
  with c show ?thesis by (simp only:)
qed

subsection \<open>C6: the thumbnail of a video and of an image\<close>

lemma placeholderSvg_contains: "\<exists>before after. placeholderSvg name = before @ name @ after"
  unfolding placeholderSvg_def by blast

lemma setHeader_svg: "setHeader ''Content-Type'' ''image/svg+xml'' [] = Inr [(''Content-Type'', ''image/svg+xml'')]"
  by (simp add: setHeader_def validHeaderValue_def)

lemma setHeader_valid:
  "validHeaderValue v \<Longrightarrow> setHeader ''Content-Type'' v [] = Inr [(''Content-Type'', v)]"
  by (simp add: setHeader_def)

text \<open>
  C6, as the claim states it, fails in its second half, at two registered images whose
  blob exists. In the first state the path of the record holds a directory:
  \<^verbatim>\<open>existsSync\<close> is true, \<^verbatim>\<open>readFileSync\<close> throws, and the two handlers answer 404 with two
  different messages. In the second the blob is a file and the \<open>fileType\<close> of the record
  ends in a line feed: \<^verbatim>\<open>res.setHeader\<close> throws on it, and the two handlers answer 500 with
  two different messages.
\<close>

theorem thumbnail_differs_from_get_counterexample:
  "getMediaById directoryWorld 1 = Some (spread_id photo 1)
   \<and> startsWith (fileType (spread_id photo 1)) ''video/'' = False
   \<and> existsSync (disk directoryWorld) (filePath examplePlatform 1 (fileName (spread_id photo 1)))
   \<and> body (fst (thumbnailHandler examplePlatform directoryWorld ''1'')) = JsonMessage ''Media file not found''
   \<and> body (fst (getHandler examplePlatform directoryWorld ''1'')) = JsonMessage ''Media not found''
   \<and> getMediaById oddTypeWorld 1 = Some (spread_id oddPhoto 1)
   \<and> startsWith (fileType (spread_id oddPhoto 1)) ''video/'' = False
   \<and> nodes (disk oddTypeWorld) (filePath examplePlatform 1 (fileName (spread_id oddPhoto 1)))
       = Some (File [1, 2, 3])
   \<and> status (fst (thumbnailHandler examplePlatform oddTypeWorld ''1'')) = 500
   \<and> body (fst (thumbnailHandler examplePlatform oddTypeWorld ''1'')) = JsonMessage ''Failed to serve thumbnail''
   \<and> body (fst (getHandler examplePlatform oddTypeWorld ''1'')) = JsonMessage ''Failed to serve media file''"
  by code_simp

text \<open>
  C6, amended: let the id string parse to the id of a registered record. When the
  \<open>fileType\<close> of the record starts with \<^verbatim>\<open>video/\<close>, the thumbnail handler answers 200 with the
  content type \<^verbatim>\<open>image/svg+xml\<close> and a text that contains the \<open>fileName\<close> of the record.
  When it does not, is a value that \<^verbatim>\<open>res.setHeader\<close> accepts, and the path of the record
  holds a file, the thumbnail handler and the get handler both answer 200 with the bytes
  of that file as the body.
\<close>

theorem thumbnail_video_and_image:
  assumes "parseInt idParam = Some i" and "getMediaById w i = Some r"
  shows "(startsWith (fileType r) ''video/'' \<longrightarrow>
            status (fst (thumbnailHandler pf w idParam)) = 200
            \<and> headers (fst (thumbnailHandler pf w idParam)) = [(''Content-Type'', ''image/svg+xml'')]
            \<and> (\<exists>before after.
                  body (fst (thumbnailHandler pf w idParam)) = SendText (before @ fileName r @ after)))
       \<and> (\<forall>bytes. \<not> startsWith (fileType r) ''video/''
              \<and> validHeaderValue (fileType r)
              \<and> nodes (disk w) (filePath pf i (fileName r)) = Some (File bytes) \<longrightarrow>
            status (fst (thumbnailHandler pf w idParam)) = 200
            \<and> status (fst (getHandler pf w idParam)) = 200
            \<and> body (fst (thumbnailHandler pf w idParam)) = SendBuffer bytes
            \<and> body (fst (getHandler pf w idParam)) = SendBuffer bytes)"
  using assms placeholderSvg_contains [of "fileName r"]
  by (auto simp: thumbnailHandler_def getHandler_def getMediaFile_def getMediaById_def
        existsSync_def readFileSync_def setHeader_svg setHeader_valid)

text \<open>
  The theorem at a registered video and at a registered image.
\<close>

theorem thumbnail_video_and_image_witness:
  "parseInt ''1'' = Some 1
   \<and> getMediaById clipWorld 1 = Some (spread_id clip 1)
   \<and> startsWith (fileType (spread_id clip 1)) ''video/''
   \<and> status (fst (thumbnailHandler examplePlatform clipWorld ''1'')) = 200
   \<and> headers (fst (thumbnailHandler examplePlatform clipWorld ''1'')) = [(''Content-Type'', ''image/svg+xml'')]
   \<and> getMediaById photoWorld 1 = Some (spread_id photo 1)
   \<and> validHeaderValue (fileType (spread_id photo 1))
   \<and> nodes (disk photoWorld) (filePath examplePlatform 1 (fileName (spread_id photo 1))) = Some (File [1, 2, 3])
   \<and> body (fst (thumbnailHandler examplePlatform photoWorld ''1'')) = SendBuffer [1, 2, 3]
   \<and> body (fst (getHandler examplePlatform photoWorld ''1'')) = SendBuffer [1, 2, 3]"
proof -
  have p: "parseInt ''1'' = Some 1" by code_simp
  have g: "getMediaById clipWorld 1 = Some (spread_id clip 1)" by code_simp
  have v: "startsWith (fileType (spread_id clip 1)) ''video/''" by code_simp
  have g': "getMediaById photoWorld 1 = Some (spread_id photo 1)" by code_simp
  have v': "\<not> startsWith (fileType (spread_id photo 1)) ''video/''" by code_simp
  have h: "validHeaderValue (fileType (spread_id photo 1))" by code_simp
  have n: "nodes (disk photoWorld) (filePath examplePlatform 1 (fileName (spread_id photo 1)))
           = Some (File [1, 2, 3])" by code_simp
  from thumbnail_video_and_image [OF p g, of examplePlatform] v
  have a: "status (fst (thumbnailHandler examplePlatform clipWorld ''1'')) = 200
     \<and> headers (fst (thumbnailHandler examplePlatform clipWorld ''1'')) = [(''Content-Type'', ''image/svg+xml'')]"
    by blast
  from thumbnail_video_and_image [OF p g', of examplePlatform] v' h n
  have b: "body (fst (thumbnailHandler examplePlatform photoWorld ''1'')) = SendBuffer [1, 2, 3]
   \<and> body (fst (getHandler examplePlatform photoWorld ''1'')) = SendBuffer [1, 2, 3]"
    by blast
  from p g v a g' h n b show ?thesis by blast
qed

subsection \<open>C7: the status for an unknown and for an unreadable id\<close>

text \<open>
  C7, as the claim states it, fails: \<^verbatim>\<open>1abc\<close> is not a number, and \<^verbatim>\<open>parseInt\<close> reads it as 1,
  so the three handlers serve record 1 with status 200 (and answer 404, not 400, to
  \<^verbatim>\<open>7up\<close> when no record 7 exists).
\<close>

theorem id_with_numeric_prefix_counterexample:
  "parseInt ''1abc'' = Some 1
   \<and> status (fst (getHandler examplePlatform photoWorld ''1abc'')) = 200
   \<and> status (fst (downloadHandler examplePlatform photoWorld ''1abc'')) = 200
   \<and> status (fst (thumbnailHandler examplePlatform photoWorld ''1abc'')) = 200
   \<and> status (fst (getHandler examplePlatform photoWorld ''7up'')) = 404"
  by code_simp

lemma isRadixDigit_10: "isRadixDigit 10 c \<Longrightarrow> c \<in> set ''0123456789''"
  by (auto simp: isRadixDigit_def digitValue_def split: option.splits if_splits)

lemma parseInt_no_digit:
  assumes "idParam = [] \<or> (\<not> isWhiteSpace (hd idParam) \<and> hd idParam \<notin> set ''+-0123456789'')"
  shows "parseInt idParam = None"
proof (cases idParam)
  case Nil
  then show ?thesis by (simp add: parseInt_def)
next
  case (Cons c cs)
  with assms have c: "\<not> isWhiteSpace c" "c \<noteq> CHR ''+''" "c \<noteq> CHR ''-''" "c \<notin> set ''0123456789''"
    by auto
  then have "\<not> isRadixDigit 10 c" using isRadixDigit_10 by blast
  moreover have "c \<noteq> CHR ''0''" using c(4) by auto
  ultimately show ?thesis using c Cons
    by (cases cs) (simp_all add: parseInt_def)
qed

lemma digits_are_digits:
  "list_all (\<lambda>c. isRadixDigit 10 c \<and> \<not> isWhiteSpace c) ''123456789''"
  by code_simp

lemma parseInt_leading_digit:
  assumes "c \<in> set ''123456789''"
  shows "parseInt (c # cs) \<noteq> None"
proof -
  have "isRadixDigit 10 c \<and> \<not> isWhiteSpace c"
    using digits_are_digits assms unfolding list_all_iff by blast
  then have d: "isRadixDigit 10 c" and w: "\<not> isWhiteSpace c" by simp_all
  have s: "c \<noteq> CHR ''+''" "c \<noteq> CHR ''-''" "c \<noteq> CHR ''0''" using assms by auto
  have "dropWhile isWhiteSpace (c # cs) = c # cs" using w by simp
  moreover have "takeWhile (isRadixDigit 10) (c # cs) \<noteq> []" using d by simp
  moreover have "take 2 (c # cs) \<noteq> ''0x''" "take 2 (c # cs) \<noteq> ''0X''"
    using s by (cases cs; simp)+
  ultimately show ?thesis using s
    by (simp add: parseInt_def Let_def del: dropWhile.simps takeWhile.simps take_Cons_numeral)
qed

text \<open>
  C7, amended: the get, download and thumbnail handlers answer 404 to every id string
  whose parsed value is not in the registry, and 400 to every id string that \<^verbatim>\<open>parseInt\<close>
  reads as \<^verbatim>\<open>NaN\<close>: among them the empty string and every string whose first character
  is neither white space, a sign nor a decimal digit. A string that starts with a digit
  from 1 to 9 is read as a number, whatever follows the digits, and is never answered 400.
\<close>

theorem id_param_status:
  "(parseInt idParam = None \<longrightarrow>
      status (fst (getHandler pf w idParam)) = 400
      \<and> status (fst (downloadHandler pf w idParam)) = 400
      \<and> status (fst (thumbnailHandler pf w idParam)) = 400)
   \<and> (\<forall>i. parseInt idParam = Some i \<and> getMediaById w i = None \<longrightarrow>
      status (fst (getHandler pf w idParam)) = 404
      \<and> status (fst (downloadHandler pf w idParam)) = 404
      \<and> status (fst (thumbnailHandler pf w idParam)) = 404)
   \<and> (idParam = [] \<or> (\<not> isWhiteSpace (hd idParam) \<and> hd idParam \<notin> set ''+-0123456789'') \<longrightarrow>
      parseInt idParam = None)
   \<and> (\<forall>c cs. idParam = c # cs \<and> c \<in> set ''123456789'' \<longrightarrow>
      status (fst (getHandler pf w idParam)) \<noteq> 400
      \<and> status (fst (downloadHandler pf w idParam)) \<noteq> 400
      \<and> status (fst (thumbnailHandler pf w idParam)) \<noteq> 400)"
proof -
  have nan: "status (fst (getHandler pf w idParam)) = 400
      \<and> status (fst (downloadHandler pf w idParam)) = 400
      \<and> status (fst (thumbnailHandler pf w idParam)) = 400"
    if "parseInt idParam = None"
    using that by (simp add: getHandler_def downloadHandler_def thumbnailHandler_def json_def)
  have unknown: "status (fst (getHandler pf w idParam)) = 404
      \<and> status (fst (downloadHandler pf w idParam)) = 404
      \<and> status (fst (thumbnailHandler pf w idParam)) = 404"
    if "parseInt idParam = Some i" and "getMediaById w i = None" for i
    using that
    by (simp add: getHandler_def downloadHandler_def thumbnailHandler_def json_def
          getMediaFile_def getMediaById_def)
  have parsed: "status (fst (getHandler pf w idParam)) \<noteq> 400
      \<and> status (fst (downloadHandler pf w idParam)) \<noteq> 400
      \<and> status (fst (thumbnailHandler pf w idParam)) \<noteq> 400"
    if "parseInt idParam = Some i" for i
    using that
    by (auto simp: getHandler_def downloadHandler_def thumbnailHandler_def json_def caught_def
        split: option.splits prod.splits sum.splits)
  have digit: "status (fst (getHandler pf w idParam)) \<noteq> 400
      \<and> status (fst (downloadHandler pf w idParam)) \<noteq> 400
      \<and> status (fst (thumbnailHandler pf w idParam)) \<noteq> 400"
    if "idParam = c # cs" and "c \<in> set ''123456789''" for c cs
  proof -
    from that parseInt_leading_digit [of c cs] obtain i where "parseInt idParam = Some i"
      by blast
    then show ?thesis by (rule parsed)
  qed
  from nan unknown parseInt_no_digit [of idParam] digit show ?thesis by blast
qed

text \<open>
  The theorem at \<^verbatim>\<open>abc\<close> and at the id 5, which is not registered.
\<close>

theorem id_param_status_witness:
  "parseInt ''abc'' = None
   \<and> status (fst (getHandler examplePlatform photoWorld ''abc'')) = 400
   \<and> status (fst (downloadHandler examplePlatform photoWorld ''abc'')) = 400
   \<and> status (fst (thumbnailHandler examplePlatform photoWorld ''abc'')) = 400
   \<and> parseInt ''5'' = Some 5
   \<and> getMediaById photoWorld 5 = None
   \<and> status (fst (getHandler examplePlatform photoWorld ''5'')) = 404
   \<and> status (fst (downloadHandler examplePlatform photoWorld ''5'')) = 404
   \<and> status (fst (thumbnailHandler examplePlatform photoWorld ''5'')) = 404"
proof -
  have h: "\<not> isWhiteSpace (hd ''abc'') \<and> hd ''abc'' \<notin> set ''+-0123456789''" by code_simp
  from id_param_status [of "''abc''" examplePlatform photoWorld] h
  have a: "parseInt ''abc'' = None
   \<and> status (fst (getHandler examplePlatform photoWorld ''abc'')) = 400
   \<and> status (fst (downloadHandler examplePlatform photoWorld ''abc'')) = 400
   \<and> status (fst (thumbnailHandler examplePlatform photoWorld ''abc'')) = 400"
    by simp
  have p: "parseInt ''5'' = Some 5" by code_simp
  have g: "getMediaById photoWorld 5 = None" by code_simp
  from id_param_status [of "''5''" examplePlatform photoWorld] p g
  have b: "status (fst (getHandler examplePlatform photoWorld ''5'')) = 404
   \<and> status (fst (downloadHandler examplePlatform photoWorld ''5'')) = 404
   \<and> status (fst (thumbnailHandler examplePlatform photoWorld ''5'')) = 404"
    by blast
  from a p g b show ?thesis by blast
qed

subsection \<open>C8: the response to an upload batch\<close>








subsection \<open>C9: when getMediaFile finds nothing\<close>

text \<open>
  C9: \<open>getMediaFile\<close> returns nothing exactly when no record has the id, or the record
  exists and its blob is missing (\<^verbatim>\<open>existsSync\<close> is false) or unreadable (\<^verbatim>\<open>readFileSync\<close>
  throws). Otherwise, that is when the path of the record holds a file, it returns the
  bytes of the file with the record; and whatever it returns is the record of the id
  with the bytes read at its path.
\<close>

theorem getMediaFile_not_found_iff:
  "(fst (getMediaFile pf w i) = None) =
     (getMediaById w i = None
      \<or> (\<exists>m. getMediaById w i = Some m
            \<and> (\<not> existsSync (disk w) (filePath pf i (fileName m))
               \<or> isl (readFileSync (disk w) (filePath pf i (fileName m))))))
   \<and> (\<forall>m bytes. getMediaById w i = Some m
         \<and> nodes (disk w) (filePath pf i (fileName m)) = Some (File bytes) \<longrightarrow>
         getMediaFile pf w i = (Some (bytes, m), w))
   \<and> (\<forall>x. fst (getMediaFile pf w i) = Some x \<longrightarrow>
         getMediaById w i = Some (snd x)
         \<and> readFileSync (disk w) (filePath pf i (fileName (snd x))) = Inr (fst x))"
  by (auto simp: getMediaFile_def getMediaById_def existsSync_def readFileSync_def
      split: option.splits sum.splits node.splits)

text \<open>
  The theorem at a registered record with its blob, at an id that is not registered, and
  at a registered record whose path holds a directory.
\<close>

theorem getMediaFile_not_found_iff_witness:
  "getMediaById photoWorld 1 = Some (spread_id photo 1)
   \<and> nodes (disk photoWorld) (filePath examplePlatform 1 (fileName (spread_id photo 1)))
       = Some (File [1, 2, 3])
   \<and> getMediaFile examplePlatform photoWorld 1 = (Some ([1, 2, 3], spread_id photo 1), photoWorld)
   \<and> fst (getMediaFile examplePlatform photoWorld 2) = None
   \<and> getMediaById directoryWorld 1 = Some (spread_id photo 1)
   \<and> isl (readFileSync (disk directoryWorld) (filePath examplePlatform 1 (fileName (spread_id photo 1))))
   \<and> fst (getMediaFile examplePlatform directoryWorld 1) = None"
proof -
  have g: "getMediaById photoWorld 1 = Some (spread_id photo 1)" by code_simp
  have n: "nodes (disk photoWorld) (filePath examplePlatform 1 (fileName (spread_id photo 1)))
       = Some (File [1, 2, 3])" by code_simp
  have g2: "getMediaById photoWorld 2 = None" by code_simp
  have g3: "getMediaById directoryWorld 1 = Some (spread_id photo 1)" by code_simp
  have u: "isl (readFileSync (disk directoryWorld)
             (filePath examplePlatform 1 (fileName (spread_id photo 1))))" by code_simp
  from getMediaFile_not_found_iff [of examplePlatform photoWorld 1] g n
  have a: "getMediaFile examplePlatform photoWorld 1 = (Some ([1, 2, 3], spread_id photo 1), photoWorld)"
    by blast
  from getMediaFile_not_found_iff [of examplePlatform photoWorld 2] g2
  have b: "fst (getMediaFile examplePlatform photoWorld 2) = None"
    by blast
  from getMediaFile_not_found_iff [of examplePlatform directoryWorld 1] g3 u
  have c: "fst (getMediaFile examplePlatform directoryWorld 1) = None"
    by blast
  from g n a b g3 u c show ?thesis by blast
qed

subsection \<open>C10: the mirror upload comes before the local record\<close>











end
